theory Spec2Isabelle
  imports Main
begin

section \<open>The carbon-clickhouse test fixture\<close>

text \<open>
  The fixture manager of the integration tests: a Go struct \<open>CarbonClickhouse\<close> with the
  methods \<open>Start\<close>, \<open>Stop\<close>, \<open>Delete\<close>, \<open>Cleanup\<close>, \<open>Address\<close> and \<open>Container\<close>.
  The methods mutate the receiver and talk to the operating system (port allocator,
  temporary directories, the template engine, the container runtime as a subprocess).
  The embedding passes the receiver and the part of the outside world the methods touch
  explicitly, records every external call in a trace, and takes the result of every
  external call as an argument, so that each theorem holds for every behaviour of the
  outside world.
\<close>

subsection \<open>Data\<close>

text \<open>A Go \<open>error\<close> is represented by its message; \<open>nil\<close> is \<open>None\<close>.\<close>

type_synonym error = string

definition CchContainerName :: string where
  "CchContainerName = ''carbon-clickhouse-gch-test''"

record CarbonClickhouse =
  Version :: string
  Docker :: string
  DockerImage :: string
  Template :: string
  TZ :: string
  address :: string
  container :: string
  storeDir :: string

text \<open>The anonymous struct handed to the template engine.\<close>

record param =
  CLICKHOUSE_URL :: string
  CCH_ADDR :: string

text \<open>
  A parsed template is the function the engine computes from it: the text it writes for a
  parameter set, and the error of \<open>ExecuteTemplate\<close>.
\<close>

type_synonym template = "param \<Rightarrow> string \<times> error option"

text \<open>
  External calls, as they are issued. \<open>ParseFiles\<close> carries the test directory and the
  template field, from which the source computes the template's name
  (\<open>filepath.Base\<close>) and path (\<open>path.Join\<close>); \<open>OpenFile\<close> and \<open>ExecuteTemplate\<close> carry
  the directory and the file name joined into \<open>configFile\<close>; \<open>Command\<close> is
  \<open>exec.Command(name, args...).CombinedOutput()\<close>.
\<close>

datatype event =
    GetFreeTCPPort string
  | TempDir string string
  | ParseFiles string string
  | OpenFile string string
  | ExecuteTemplate string string param
  | Command string "string list"
  | RemoveAll string

text \<open>
  The receiver, the scratch directories on disk (directory path to its files, file name to
  content) and the trace of external calls.
\<close>

record world =
  fixture :: CarbonClickhouse
  fs :: "string \<rightharpoonup> (string \<rightharpoonup> string)"
  trace :: "event list"

text \<open>
  What the outside world answers during one \<open>Start\<close>: the two port allocations, the
  temporary directory, parsing the template, creating the configuration file, the
  container runtime's combined output and error, and the recursive removal of the
  scratch directory (whose error \<open>Cleanup\<close> drops). Go's two-valued returns are pairs:
  both components are assigned, also on error.
\<close>

record start_env =
  port1 :: "string \<times> error option"
  tempDir :: "string \<times> error option"
  port2 :: "string \<times> error option"
  parseFiles :: "error + template"
  openFile :: "error option"
  combinedOutput :: "string \<times> error option"
  removeAll :: "error option"

subsection \<open>Operations\<close>

definition emit :: "event \<Rightarrow> world \<Rightarrow> world" where
  "emit ev w = w\<lparr>trace := trace w @ [ev]\<rparr>"

text \<open>
  \<open>Cleanup\<close>: \<open>os.RemoveAll(c.storeDir)\<close> with its error dropped, then the tracked path
  is cleared. A removal that succeeds deletes the directory; one that fails leaves it.
\<close>

definition Cleanup :: "error option \<Rightarrow> world \<Rightarrow> world" where
  "Cleanup rm w =
    (if storeDir (fixture w) \<noteq> '''' then
       w\<lparr>fixture := (fixture w)\<lparr>storeDir := ''''\<rparr>,
         fs := (if rm = None then (fs w)(storeDir (fixture w) := None) else fs w),
         trace := trace w @ [RemoveAll (storeDir (fixture w))]\<rparr>
     else w)"

text \<open>
  Writing \<open>new\<close> at offset 0 of a file opened without \<open>O_TRUNC\<close>: what lies beyond the
  written text stays.
\<close>

definition overwrite :: "string \<Rightarrow> string \<Rightarrow> string" where
  "overwrite old new = new @ drop (length new) old"

text \<open>\<open>os.OpenFile(configFile, O_WRONLY|O_CREATE, 0644)\<close>: the file is created when absent.\<close>

definition create_file :: "string \<Rightarrow> string \<Rightarrow> world \<Rightarrow> world" where
  "create_file d n w =
    (case fs w d of
       None \<Rightarrow> w
     | Some files \<Rightarrow>
         (case files n of
            None \<Rightarrow> w\<lparr>fs := (fs w)(d \<mapsto> files(n \<mapsto> ''''))\<rparr>
          | Some _ \<Rightarrow> w))"

definition write_file :: "string \<Rightarrow> string \<Rightarrow> string \<Rightarrow> world \<Rightarrow> world" where
  "write_file d n txt w =
    (case fs w d of
       None \<Rightarrow> w
     | Some files \<Rightarrow>
         (case files n of
            None \<Rightarrow> w
          | Some old \<Rightarrow> w\<lparr>fs := (fs w)(d \<mapsto> files(n \<mapsto> overwrite old txt))\<rparr>))"

text \<open>Lines 88 to 103 of \<open>Start\<close>: the container runtime is launched.\<close>

definition Start_launch :: "start_env \<Rightarrow> string \<Rightarrow> world \<Rightarrow> (error option \<times> string) \<times> world" where
  "Start_launch env clickhouseContainer w =
    (let c = fixture w;
         cchStart = [''run'', ''-d'',
                     ''--name'', container c,
                     ''-p'', address c @ '':2003'',
                     ''-v'', storeDir c @ '':/etc/carbon-clickhouse'',
                     ''--link'', clickhouseContainer];
         cchStart = (if TZ c \<noteq> '''' then cchStart @ [''-e'', ''TZ='' @ TZ c] else cchStart);
         cchStart = cchStart @ [DockerImage c @ '':'' @ Version c];
         (out, err) = combinedOutput env
     in ((err, out), emit (Command (Docker c) cchStart) w))"

text \<open>Lines 59 to 84 of \<open>Start\<close>: the template is parsed and rendered into the scratch directory.\<close>

definition Start_config ::
  "start_env \<Rightarrow> string \<Rightarrow> string \<Rightarrow> string \<Rightarrow> world \<Rightarrow> (error option \<times> string) \<times> world" where
  "Start_config env testDir clickhouseURL clickhouseContainer w =
    (let w = emit (ParseFiles testDir (Template (fixture w))) w in
     case parseFiles env of
       Inl err \<Rightarrow> ((Some err, ''''), Cleanup (removeAll env) w)
     | Inr tmpl \<Rightarrow>
        (let p = \<lparr>CLICKHOUSE_URL = clickhouseURL, CCH_ADDR = address (fixture w)\<rparr>;
             d = storeDir (fixture w);
             w = emit (OpenFile d ''carbon-clickhouse.conf'') w;
             err = openFile env
         in if err \<noteq> None then ((err, ''''), Cleanup (removeAll env) w)
            else
             (let w = create_file d ''carbon-clickhouse.conf'' w;
                  (txt, err) = tmpl p;
                  w = write_file d ''carbon-clickhouse.conf'' txt
                        (emit (ExecuteTemplate d ''carbon-clickhouse.conf'' p) w)
              in if err \<noteq> None then ((err, ''''), Cleanup (removeAll env) w)
                 else Start_launch env clickhouseContainer w)))"

text \<open>\<open>Start\<close>, lines 30 to 57, continued by the two parts above.\<close>

definition Start ::
  "start_env \<Rightarrow> string \<Rightarrow> string \<Rightarrow> string \<Rightarrow> world \<Rightarrow> (error option \<times> string) \<times> world" where
  "Start env testDir clickhouseURL clickhouseContainer w =
    (if length (Version (fixture w)) = 0 then ((Some ''version not set'', ''''), w)
     else
      (let w = (if length (Docker (fixture w)) = 0
                then w\<lparr>fixture := (fixture w)\<lparr>Docker := ''docker''\<rparr>\<rparr> else w);
           w = (if length (DockerImage (fixture w)) = 0
                then w\<lparr>fixture := (fixture w)\<lparr>DockerImage := ''lomik/carbon-clickhouse''\<rparr>\<rparr> else w);
           (a, err) = port1 env;
           w = emit (GetFreeTCPPort '''') (w\<lparr>fixture := (fixture w)\<lparr>address := a\<rparr>\<rparr>)
       in if err \<noteq> None then ((err, ''''), w)
          else
           (let w = w\<lparr>fixture := (fixture w)\<lparr>container := CchContainerName\<rparr>\<rparr>;
                (d, err) = tempDir env;
                w = emit (TempDir '''' ''carbon-clickhouse'')
                      (w\<lparr>fixture := (fixture w)\<lparr>storeDir := d\<rparr>,
                         fs := (if err = None then (fs w)(d \<mapsto> Map.empty) else fs w)\<rparr>)
            in if err \<noteq> None then ((err, ''''), w)
               else
                (let (a, err) = port2 env;
                     w = emit (GetFreeTCPPort '''') (w\<lparr>fixture := (fixture w)\<lparr>address := a\<rparr>\<rparr>)
                 in if err \<noteq> None then ((err, ''''), Cleanup (removeAll env) w)
                    else Start_config env testDir clickhouseURL clickhouseContainer w))))"

text \<open>
  \<open>Delete\<close>: \<open>rm\<close> is the combined output and error of the runtime's \<open>rm\<close>, \<open>ra\<close> the
  error of the removal of the scratch directory.
\<close>

definition Delete ::
  "string \<times> error option \<Rightarrow> error option \<Rightarrow> world \<Rightarrow> (error option \<times> string) \<times> world" where
  "Delete rm ra w =
    (if length (container (fixture w)) = 0 then ((None, ''''), w)
     else
      (let chDel = [''rm'', container (fixture w)];
           w = emit (Command (Docker (fixture w)) chDel) w;
           (out, err) = rm;
           w = (if err = None then w\<lparr>fixture := (fixture w)\<lparr>container := ''''\<rparr>\<rparr> else w);
           w = Cleanup ra w
       in ((err, out), w)))"

text \<open>\<open>Stop\<close>: \<open>st\<close> is the combined output and error of the runtime's \<open>stop\<close>.\<close>

definition Stop ::
  "string \<times> error option \<Rightarrow> string \<times> error option \<Rightarrow> error option \<Rightarrow> bool \<Rightarrow> world
     \<Rightarrow> (error option \<times> string) \<times> world" where
  "Stop st rm ra delete w =
    (if length (container (fixture w)) = 0 then ((None, ''''), w)
     else
      (let chStop = [''stop'', container (fixture w)];
           w = emit (Command (Docker (fixture w)) chStop) w;
           (out, err) = st
       in if err = None \<and> delete then Delete rm ra w
          else ((err, out), w)))"

definition Address :: "world \<Rightarrow> string" where
  "Address w = address (fixture w)"

definition Container :: "world \<Rightarrow> string" where
  "Container w = container (fixture w)"

subsection \<open>Traces and sequences of calls\<close>

text \<open>
  Subprocess invocations and removals among the external calls, and the external calls
  issued on the way from \<open>w\<close> to \<open>w'\<close>.
\<close>

fun is_command :: "event \<Rightarrow> bool" where
  "is_command (Command n args) = True"
| "is_command _ = False"

fun is_removal :: "event \<Rightarrow> bool" where
  "is_removal (RemoveAll d) = True"
| "is_removal _ = False"

definition since :: "world \<Rightarrow> world \<Rightarrow> event list" where
  "since w w' = drop (length (trace w)) (trace w')"

text \<open>
  A caller's sequence of method calls, each with the outside world's answers. The return
  values are dropped: \<open>run\<close> is what the calls leave behind.
\<close>

datatype call =
    CallStart start_env string string string
  | CallStop "string \<times> error option" "string \<times> error option" "error option" bool
  | CallDelete "string \<times> error option" "error option"
  | CallCleanup "error option"

fun perform :: "call \<Rightarrow> world \<Rightarrow> world" where
  "perform (CallStart env testDir url link) w = snd (Start env testDir url link w)"
| "perform (CallStop st rm ra delete) w = snd (Stop st rm ra delete w)"
| "perform (CallDelete rm ra) w = snd (Delete rm ra w)"
| "perform (CallCleanup ra) w = Cleanup ra w"

fun run :: "call list \<Rightarrow> world \<Rightarrow> world" where
  "run [] w = w"
| "run (c # cs) w = run cs (perform c w)"


subsection \<open>The worlds between the steps of Start\<close>

text \<open>
  The world after the defaulting of lines 34 to 39, after the first port reservation
  (line 41), after the container name and the scratch directory (lines 46 and 48), and
  after the second port reservation (line 53). Each is the value the variable \<open>w\<close>
  has at that point of \<open>Start\<close>; the lemmas of the next section say so.
\<close>

definition defaulted :: "world \<Rightarrow> world" where
  "defaulted w =
    w\<lparr>fixture := (fixture w)
        \<lparr>Docker := (if Docker (fixture w) = '''' then ''docker'' else Docker (fixture w)),
         DockerImage := (if DockerImage (fixture w) = '''' then ''lomik/carbon-clickhouse''
                         else DockerImage (fixture w))\<rparr>\<rparr>"

definition reserved1 :: "start_env \<Rightarrow> world \<Rightarrow> world" where
  "reserved1 env w =
    (defaulted w)\<lparr>fixture := (fixture (defaulted w))\<lparr>address := fst (port1 env)\<rparr>,
                  trace := trace w @ [GetFreeTCPPort '''']\<rparr>"

definition scratch :: "start_env \<Rightarrow> world \<Rightarrow> world" where
  "scratch env w =
    (reserved1 env w)
      \<lparr>fixture := (fixture (reserved1 env w))
          \<lparr>container := CchContainerName, storeDir := fst (tempDir env)\<rparr>,
       fs := (if snd (tempDir env) = None then (fs w)(fst (tempDir env) \<mapsto> Map.empty) else fs w),
       trace := trace w @ [GetFreeTCPPort '''', TempDir '''' ''carbon-clickhouse'']\<rparr>"

definition reserved2 :: "start_env \<Rightarrow> world \<Rightarrow> world" where
  "reserved2 env w =
    (scratch env w)\<lparr>fixture := (fixture (scratch env w))\<lparr>address := fst (port2 env)\<rparr>,
                    trace := trace w @ [GetFreeTCPPort '''', TempDir '''' ''carbon-clickhouse'',
                                        GetFreeTCPPort '''']\<rparr>"

text \<open>
  The parameters handed to the template (lines 66 to 72), the world after \<open>ParseFiles\<close>,
  after \<open>OpenFile\<close> and after \<open>ExecuteTemplate\<close>, and the arguments of the runtime's
  \<open>run\<close> (lines 88 to 98).
\<close>

definition params :: "string \<Rightarrow> world \<Rightarrow> param" where
  "params url w = \<lparr>CLICKHOUSE_URL = url, CCH_ADDR = address (fixture w)\<rparr>"

definition parsed :: "string \<Rightarrow> world \<Rightarrow> world" where
  "parsed testDir w = emit (ParseFiles testDir (Template (fixture w))) w"

definition opened :: "string \<Rightarrow> world \<Rightarrow> world" where
  "opened testDir w =
     emit (OpenFile (storeDir (fixture w)) ''carbon-clickhouse.conf'') (parsed testDir w)"

definition rendered :: "template \<Rightarrow> string \<Rightarrow> string \<Rightarrow> world \<Rightarrow> world" where
  "rendered tmpl testDir url w =
     write_file (storeDir (fixture w)) ''carbon-clickhouse.conf'' (fst (tmpl (params url w)))
       (emit (ExecuteTemplate (storeDir (fixture w)) ''carbon-clickhouse.conf'' (params url w))
          (create_file (storeDir (fixture w)) ''carbon-clickhouse.conf'' (opened testDir w)))"

definition run_args :: "string \<Rightarrow> CarbonClickhouse \<Rightarrow> string list" where
  "run_args link c =
     [''run'', ''-d'', ''--name'', container c, ''-p'', address c @ '':2003'',
      ''-v'', storeDir c @ '':/etc/carbon-clickhouse'', ''--link'', link]
     @ (if TZ c \<noteq> '''' then [''-e'', ''TZ='' @ TZ c] else [])
     @ [DockerImage c @ '':'' @ Version c]"

subsection \<open>The port allocator\<close>

text \<open>
  Modelled from the spec: the port allocator \<open>getFreeTCPPort\<close> is called by \<open>Start\<close> but
  is not among the sources at hand. The spec describes it as a primitive "returning a free
  local address string", "infallible-or-error": an answer without error carries a
  non-empty address.
\<close>

definition free_address :: "string \<times> error option \<Rightarrow> bool" where
  "free_address r = (snd r \<noteq> None \<or> fst r \<noteq> '''')"

subsection \<open>The container name, told from the calls\<close>

text \<open>
  Whether the receiver holds the container name after a sequence of calls, told from the
  calls and the outside world's answers alone: a \<open>Start\<close> that passes the version check
  and the first port reservation sets it, a runtime \<open>rm\<close> that succeeds (in \<open>Delete\<close>, or
  chained from a successful \<open>Stop(true)\<close>) clears it, and nothing else changes it.
\<close>

fun names_container :: "call \<Rightarrow> world \<Rightarrow> bool \<Rightarrow> bool" where
  "names_container (CallStart env testDir url link) w b =
     (if Version (fixture w) \<noteq> '''' \<and> snd (port1 env) = None then True else b)"
| "names_container (CallStop st rm ra delete) w b =
     (if snd st = None \<and> delete \<and> snd rm = None then False else b)"
| "names_container (CallDelete rm ra) w b = (if snd rm = None then False else b)"
| "names_container (CallCleanup ra) w b = b"

fun named :: "call list \<Rightarrow> world \<Rightarrow> bool \<Rightarrow> bool" where
  "named [] w b = b"
| "named (c # cs) w b = named cs (perform c w) (names_container c w b)"

subsection \<open>Scenarios\<close>

text \<open>
  A fixture as the test configuration gives it (version \<open>1.2.3\<close>, nothing else set but
  the template), an empty world, a template that mentions both parameters, and an outside
  world in which every step of \<open>Start\<close> succeeds; \<open>world1\<close> is the world after that
  \<open>Start\<close>.
\<close>

definition fixture0 :: CarbonClickhouse where
  "fixture0 =
     \<lparr>Version = ''1.2.3'', Docker = '''', DockerImage = '''',
      Template = ''carbon-clickhouse.conf.tpl'', TZ = '''',
      address = '''', container = '''', storeDir = ''''\<rparr>"

definition world0 :: world where
  "world0 = \<lparr>fixture = fixture0, fs = Map.empty, trace = []\<rparr>"

definition tmpl0 :: template where
  "tmpl0 p = (''url='' @ CLICKHOUSE_URL p @ '' listen='' @ CCH_ADDR p, None)"

definition env0 :: start_env where
  "env0 =
     \<lparr>port1 = (''127.0.0.1:40001'', None),
      tempDir = (''/tmp/carbon-clickhouse1'', None),
      port2 = (''127.0.0.1:40002'', None),
      parseFiles = Inr tmpl0,
      openFile = None,
      combinedOutput = (''0123456789ab'', None),
      removeAll = None\<rparr>"

definition world1 :: world where
  "world1 = snd (Start env0 ''/tests'' ''ch:8123'' ''ch-container'' world0)"

text \<open>
  Outside worlds in which one step fails: a template that refers to a parameter that
  does not exist, a runtime binary that cannot be executed (no output at all), a runtime
  that refuses the container name, and a temporary directory that cannot be created.
  \<open>env_again\<close> answers a second \<open>Start\<close> on the same receiver.
\<close>

definition tmpl_undefined :: template where
  "tmpl_undefined p = (''url='', Some ''undefined field CCH_PORT'')"

definition env_render_fails :: start_env where
  "env_render_fails = env0\<lparr>parseFiles := Inr tmpl_undefined\<rparr>"

definition env_no_runtime :: start_env where
  "env_no_runtime = env0\<lparr>combinedOutput := ('''', Some ''exec: docker: executable file not found'')\<rparr>"

definition env_conflict :: start_env where
  "env_conflict =
     env0\<lparr>combinedOutput := (''docker: Error response from daemon: Conflict.'',
                               Some ''exit status 125'')\<rparr>"

definition env_no_scratch :: start_env where
  "env_no_scratch = env0\<lparr>tempDir := ('''', Some ''mkdir: no space left on device'')\<rparr>"


section \<open>Start, step by step\<close>

text \<open>
  \<open>Start\<close> returns at the first step that fails. Each lemma gives the result of \<open>Start\<close>
  when the steps before a given one succeed.
\<close>

lemma Start_invalid:
  "Version (fixture w) = '''' \<Longrightarrow>
     Start env testDir url link w = ((Some ''version not set'', ''''), w)"
  by (simp add: Start_def)

lemma Start_port1_fails:
  "Version (fixture w) \<noteq> '''' \<Longrightarrow> snd (port1 env) \<noteq> None \<Longrightarrow>
     Start env testDir url link w = ((snd (port1 env), ''''), reserved1 env w)"
  by (cases "port1 env")
     (auto simp: Start_def reserved1_def defaulted_def emit_def Let_def)

lemma Start_tempDir_fails:
  "Version (fixture w) \<noteq> '''' \<Longrightarrow> snd (port1 env) = None \<Longrightarrow> snd (tempDir env) \<noteq> None \<Longrightarrow>
     Start env testDir url link w = ((snd (tempDir env), ''''), scratch env w)"
  by (cases "port1 env"; cases "tempDir env")
     (auto simp: Start_def scratch_def reserved1_def defaulted_def emit_def Let_def)

lemma Start_port2_fails:
  "Version (fixture w) \<noteq> '''' \<Longrightarrow> snd (port1 env) = None \<Longrightarrow> snd (tempDir env) = None \<Longrightarrow>
   snd (port2 env) \<noteq> None \<Longrightarrow>
     Start env testDir url link w = ((snd (port2 env), ''''), Cleanup (removeAll env) (reserved2 env w))"
  by (cases "port1 env"; cases "tempDir env"; cases "port2 env")
     (auto simp: Start_def reserved2_def scratch_def reserved1_def defaulted_def emit_def Let_def)

lemma Start_allocated:
  "Version (fixture w) \<noteq> '''' \<Longrightarrow> snd (port1 env) = None \<Longrightarrow> snd (tempDir env) = None \<Longrightarrow>
   snd (port2 env) = None \<Longrightarrow>
     Start env testDir url link w = Start_config env testDir url link (reserved2 env w)"
  by (cases "port1 env"; cases "tempDir env"; cases "port2 env")
     (auto simp: Start_def reserved2_def scratch_def reserved1_def defaulted_def emit_def Let_def)

lemma Start_config_parse_fails:
  "parseFiles env = Inl e \<Longrightarrow>
     Start_config env testDir url link w =
       ((Some e, ''''), Cleanup (removeAll env) (parsed testDir w))"
  by (simp add: Start_config_def parsed_def Let_def)

lemma Start_config_open_fails:
  "parseFiles env = Inr tmpl \<Longrightarrow> openFile env \<noteq> None \<Longrightarrow>
     Start_config env testDir url link w =
       ((openFile env, ''''), Cleanup (removeAll env) (opened testDir w))"
  by (auto simp: Start_config_def opened_def parsed_def emit_def Let_def)

lemma Start_config_render_fails:
  "parseFiles env = Inr tmpl \<Longrightarrow> openFile env = None \<Longrightarrow> snd (tmpl (params url w)) \<noteq> None \<Longrightarrow>
     Start_config env testDir url link w =
       ((snd (tmpl (params url w)), ''''), Cleanup (removeAll env) (rendered tmpl testDir url w))"
  by (cases "tmpl (params url w)")
     (auto simp: Start_config_def rendered_def opened_def parsed_def params_def emit_def Let_def)

lemma Start_config_rendered:
  "parseFiles env = Inr tmpl \<Longrightarrow> openFile env = None \<Longrightarrow> snd (tmpl (params url w)) = None \<Longrightarrow>
     Start_config env testDir url link w = Start_launch env link (rendered tmpl testDir url w)"
  by (cases "tmpl (params url w)")
     (auto simp: Start_config_def rendered_def opened_def parsed_def params_def emit_def Let_def)

lemma Start_launch_eq:
  "Start_launch env link w =
     ((snd (combinedOutput env), fst (combinedOutput env)),
      emit (Command (Docker (fixture w)) (run_args link (fixture w))) w)"
  by (cases "combinedOutput env") (simp add: Start_launch_def run_args_def Let_def)

text \<open>
What each intermediate world holds.
\<close>

lemma emit_simps [simp]:
  "fixture (emit ev w) = fixture w"
  "fs (emit ev w) = fs w"
  "trace (emit ev w) = trace w @ [ev]"
  by (simp_all add: emit_def)

lemma create_file_simps [simp]:
  "fixture (create_file d n w) = fixture w"
  "trace (create_file d n w) = trace w"
  by (simp_all add: create_file_def split: option.splits)

lemma write_file_simps [simp]:
  "fixture (write_file d n txt w) = fixture w"
  "trace (write_file d n txt w) = trace w"
  by (simp_all add: write_file_def split: option.splits)

lemma Cleanup_fixture: "fixture (Cleanup ra w) = (fixture w)\<lparr>storeDir := ''''\<rparr>"
  by (simp add: Cleanup_def)

lemma Cleanup_trace:
  "trace (Cleanup ra w) =
     trace w @ (if storeDir (fixture w) \<noteq> '''' then [RemoveAll (storeDir (fixture w))] else [])"
  by (simp add: Cleanup_def)

lemma Cleanup_fs:
  "fs (Cleanup ra w) =
     (if storeDir (fixture w) \<noteq> '''' \<and> ra = None then (fs w)(storeDir (fixture w) := None)
      else fs w)"
  by (simp add: Cleanup_def)

lemma reserved2_fixture:
  "fixture (reserved2 env w) =
     (fixture (defaulted w))
       \<lparr>address := fst (port2 env), container := CchContainerName,
        storeDir := fst (tempDir env)\<rparr>"
  by (simp add: reserved2_def scratch_def reserved1_def)

lemma reserved2_trace:
  "trace (reserved2 env w) =
     trace w @ [GetFreeTCPPort '''', TempDir '''' ''carbon-clickhouse'', GetFreeTCPPort '''']"
  by (simp add: reserved2_def)

lemma reserved2_fs:
  "snd (tempDir env) = None \<Longrightarrow>
     fs (reserved2 env w) = (fs w)(fst (tempDir env) \<mapsto> Map.empty)"
  by (simp add: reserved2_def scratch_def)

lemma config_fixture [simp]:
  "fixture (parsed testDir w) = fixture w"
  "fixture (opened testDir w) = fixture w"
  "fixture (rendered tmpl testDir url w) = fixture w"
  by (simp_all add: parsed_def opened_def rendered_def)

lemma parsed_trace:
  "trace (parsed testDir w) = trace w @ [ParseFiles testDir (Template (fixture w))]"
  by (simp add: parsed_def)

lemma opened_trace:
  "trace (opened testDir w) =
     trace w @ [ParseFiles testDir (Template (fixture w)),
                OpenFile (storeDir (fixture w)) ''carbon-clickhouse.conf'']"
  by (simp add: opened_def parsed_def)

lemma rendered_trace:
  "trace (rendered tmpl testDir url w) =
     trace w @ [ParseFiles testDir (Template (fixture w)),
                OpenFile (storeDir (fixture w)) ''carbon-clickhouse.conf'',
                ExecuteTemplate (storeDir (fixture w)) ''carbon-clickhouse.conf'' (params url w)]"
  by (simp add: rendered_def opened_def parsed_def)

lemma config_fs [simp]:
  "fs (parsed testDir w) = fs w"
  "fs (opened testDir w) = fs w"
  by (simp_all add: parsed_def opened_def)

lemma rendered_fs:
  "fs w (storeDir (fixture w)) = Some Map.empty \<Longrightarrow>
     fs (rendered tmpl testDir url w) =
       (fs w)(storeDir (fixture w) \<mapsto> [''carbon-clickhouse.conf'' \<mapsto> fst (tmpl (params url w))])"
  by (simp add: rendered_def create_file_def write_file_def overwrite_def)


lemma defaulted_simps [simp]:
  "Version (fixture (defaulted w)) = Version (fixture w)"
  "Template (fixture (defaulted w)) = Template (fixture w)"
  "TZ (fixture (defaulted w)) = TZ (fixture w)"
  "address (fixture (defaulted w)) = address (fixture w)"
  "container (fixture (defaulted w)) = container (fixture w)"
  "storeDir (fixture (defaulted w)) = storeDir (fixture w)"
  "Docker (fixture (defaulted w)) =
     (if Docker (fixture w) = '''' then ''docker'' else Docker (fixture w))"
  "DockerImage (fixture (defaulted w)) =
     (if DockerImage (fixture w) = '''' then ''lomik/carbon-clickhouse''
      else DockerImage (fixture w))"
  "fs (defaulted w) = fs w"
  "trace (defaulted w) = trace w"
  by (simp_all add: defaulted_def)

lemma reserved1_fixture:
  "fixture (reserved1 env w) = (fixture (defaulted w))\<lparr>address := fst (port1 env)\<rparr>"
  by (simp add: reserved1_def)

lemma reserved1_world [simp]:
  "fs (reserved1 env w) = fs w"
  "trace (reserved1 env w) = trace w @ [GetFreeTCPPort '''']"
  by (simp_all add: reserved1_def)

lemma scratch_fixture:
  "fixture (scratch env w) =
     (fixture (defaulted w))
       \<lparr>address := fst (port1 env), container := CchContainerName,
        storeDir := fst (tempDir env)\<rparr>"
  by (simp add: scratch_def reserved1_def)

lemma scratch_world:
  "fs (scratch env w) =
     (if snd (tempDir env) = None then (fs w)(fst (tempDir env) \<mapsto> Map.empty) else fs w)"
  "trace (scratch env w) = trace w @ [GetFreeTCPPort '''', TempDir '''' ''carbon-clickhouse'']"
  by (simp_all add: scratch_def)

text \<open>
  The seven ways a \<open>Start\<close> with a version set can end, as a case rule: the first port
  reservation fails, the scratch directory cannot be created, the second reservation
  fails, the template cannot be parsed, the configuration file cannot be created, the
  template cannot be rendered, or the runtime is launched.
\<close>

lemma Start_cases [consumes 1, case_names port1 tempDir port2 parse openFile render launch]:
  assumes "Version (fixture w) \<noteq> ''''"
  obtains
    "snd (port1 env) \<noteq> None"
    "Start env testDir url link w = ((snd (port1 env), ''''), reserved1 env w)"
  | "snd (port1 env) = None" "snd (tempDir env) \<noteq> None"
    "Start env testDir url link w = ((snd (tempDir env), ''''), scratch env w)"
  | "snd (port1 env) = None" "snd (tempDir env) = None" "snd (port2 env) \<noteq> None"
    "Start env testDir url link w =
       ((snd (port2 env), ''''), Cleanup (removeAll env) (reserved2 env w))"
  | e where "snd (port1 env) = None" "snd (tempDir env) = None" "snd (port2 env) = None"
    "parseFiles env = Inl e"
    "Start env testDir url link w =
       ((Some e, ''''), Cleanup (removeAll env) (parsed testDir (reserved2 env w)))"
  | tmpl where "snd (port1 env) = None" "snd (tempDir env) = None" "snd (port2 env) = None"
    "parseFiles env = Inr tmpl" "openFile env \<noteq> None"
    "Start env testDir url link w =
       ((openFile env, ''''), Cleanup (removeAll env) (opened testDir (reserved2 env w)))"
  | tmpl where "snd (port1 env) = None" "snd (tempDir env) = None" "snd (port2 env) = None"
    "parseFiles env = Inr tmpl" "openFile env = None"
    "snd (tmpl (params url (reserved2 env w))) \<noteq> None"
    "Start env testDir url link w =
       ((snd (tmpl (params url (reserved2 env w))), ''''),
        Cleanup (removeAll env) (rendered tmpl testDir url (reserved2 env w)))"
  | tmpl where "snd (port1 env) = None" "snd (tempDir env) = None" "snd (port2 env) = None"
    "parseFiles env = Inr tmpl" "openFile env = None"
    "snd (tmpl (params url (reserved2 env w))) = None"
    "Start env testDir url link w =
       ((snd (combinedOutput env), fst (combinedOutput env)),
        emit (Command (Docker (fixture (reserved2 env w)))
                (run_args link (fixture (reserved2 env w))))
          (rendered tmpl testDir url (reserved2 env w)))"
proof (cases "snd (port1 env) = None")
  case False
  then show ?thesis using that(1) Start_port1_fails [OF assms] by blast
next
  case p1: True
  show ?thesis
  proof (cases "snd (tempDir env) = None")
    case False
    then show ?thesis using that(2) p1 Start_tempDir_fails [OF assms p1] by blast
  next
    case td: True
    show ?thesis
    proof (cases "snd (port2 env) = None")
      case False
      then show ?thesis using that(3) p1 td Start_port2_fails [OF assms p1 td] by blast
    next
      case p2: True
      note alloc = Start_allocated [OF assms p1 td p2]
      show ?thesis
      proof (cases "parseFiles env")
        case (Inl e)
        then show ?thesis
          using that(4) p1 td p2 alloc Start_config_parse_fails [OF Inl] by simp
      next
        case (Inr tmpl)
        show ?thesis
        proof (cases "openFile env = None")
          case False
          then show ?thesis
            using that(5) p1 td p2 Inr alloc Start_config_open_fails [OF Inr False] by simp
        next
          case op: True
          show ?thesis
          proof (cases "snd (tmpl (params url (reserved2 env w))) = None")
            case False
            then show ?thesis
              using that(6) p1 td p2 Inr op alloc Start_config_render_fails [OF Inr op False]
              by simp
          next
            case True
            then show ?thesis
              using that(7) p1 td p2 Inr op alloc Start_config_rendered [OF Inr op True]
                Start_launch_eq
              by simp
          qed
        qed
      qed
    qed
  qed
qed

lemma since_append: "trace w' = trace w @ xs \<Longrightarrow> since w w' = xs"
  by (simp add: since_def)

lemma Start_launched:
  assumes "Version (fixture w) \<noteq> ''''"
    and "snd (port1 env) = None" and "snd (tempDir env) = None" and "snd (port2 env) = None"
    and "parseFiles env = Inr tmpl" and "openFile env = None"
    and "snd (tmpl (params url (reserved2 env w))) = None"
  shows "Start env testDir url link w =
     ((snd (combinedOutput env), fst (combinedOutput env)),
      emit (Command (Docker (fixture (reserved2 env w))) (run_args link (fixture (reserved2 env w))))
        (rendered tmpl testDir url (reserved2 env w)))"
  unfolding Start_allocated [OF assms(1-4)] Start_config_rendered [OF assms(5-7)] Start_launch_eq
  by simp

lemma launched_fs:
  assumes "snd (tempDir env) = None"
  shows "fs (rendered tmpl testDir url (reserved2 env w)) =
     (fs w)(fst (tempDir env) \<mapsto>
        [''carbon-clickhouse.conf'' \<mapsto> fst (tmpl (params url (reserved2 env w)))])"
proof -
  have "fs (reserved2 env w) (storeDir (fixture (reserved2 env w))) = Some Map.empty"
    by (simp add: reserved2_fs [OF assms] reserved2_fixture)
  from rendered_fs [OF this] show ?thesis
    by (simp add: reserved2_fs [OF assms] reserved2_fixture)
qed

lemma launched_trace:
  "trace (emit ev (rendered tmpl testDir url (reserved2 env w))) =
     trace w @
     [GetFreeTCPPort '''', TempDir '''' ''carbon-clickhouse'', GetFreeTCPPort '''',
      ParseFiles testDir (Template (fixture w)),
      OpenFile (fst (tempDir env)) ''carbon-clickhouse.conf'',
      ExecuteTemplate (fst (tempDir env)) ''carbon-clickhouse.conf''
        \<lparr>CLICKHOUSE_URL = url, CCH_ADDR = fst (port2 env)\<rparr>,
      ev]"
  by (simp add: rendered_trace reserved2_trace reserved2_fixture params_def)

lemma Start_ok_launched:
  assumes ok: "fst (fst (Start env testDir url link w)) = None"
  shows "\<exists>tmpl. parseFiles env = Inr tmpl \<and> snd (tempDir env) = None \<and> snd (port2 env) = None \<and>
     Start env testDir url link w =
       ((snd (combinedOutput env), fst (combinedOutput env)),
        emit (Command (Docker (fixture (reserved2 env w)))
                (run_args link (fixture (reserved2 env w))))
          (rendered tmpl testDir url (reserved2 env w)))"
proof -
  have v: "Version (fixture w) \<noteq> ''''"
    using ok by (auto simp: Start_invalid)
  from v show ?thesis
  proof (cases rule: Start_cases [where env = env and testDir = testDir and url = url and link = link])
    case port1
    with ok have False by simp
    then show ?thesis ..
  next
    case tempDir
    with ok have False by simp
    then show ?thesis ..
  next
    case port2
    with ok have False by simp
    then show ?thesis ..
  next
    case (parse e)
    with ok have False by simp
    then show ?thesis ..
  next
    case (openFile tmpl)
    with ok have False by simp
    then show ?thesis ..
  next
    case (render tmpl)
    with ok have False by simp
    then show ?thesis ..
  next
    case (launch tmpl)
    then show ?thesis by blast
  qed
qed

lemma Start_container:
  "container (fixture (snd (Start env testDir url link w))) =
     (if Version (fixture w) \<noteq> '''' \<and> snd (port1 env) = None then CchContainerName
      else container (fixture w))"
proof (cases "Version (fixture w) = ''''")
  case True
  then show ?thesis by (simp add: Start_invalid)
next
  case False
  then show ?thesis
    by (cases rule: Start_cases [where env = env and testDir = testDir and url = url and link = link])
       (auto simp: False reserved1_fixture scratch_fixture reserved2_fixture Cleanup_fixture)
qed


section \<open>Cleanup, Delete and Stop\<close>

lemma Cleanup_untracked: "storeDir (fixture w) = '''' \<Longrightarrow> Cleanup ra w = w"
  by (simp add: Cleanup_def)

lemma Cleanup_Cleanup: "Cleanup ra' (Cleanup ra w) = Cleanup ra w"
  by (simp add: Cleanup_untracked Cleanup_fixture)

lemma run_Cleanups: "run (map CallCleanup ras) (Cleanup ra w) = Cleanup ra w"
  by (induction ras) (simp_all add: Cleanup_Cleanup)

lemma Delete_world:
  "snd (Delete rm ra w) =
     (if container (fixture w) = '''' then w
      else Cleanup ra
        ((emit (Command (Docker (fixture w)) [''rm'', container (fixture w)]) w)
           \<lparr>fixture := (fixture w)
              \<lparr>container := (if snd rm = None then '''' else container (fixture w))\<rparr>\<rparr>))"
  by (cases rm) (simp add: Delete_def Let_def emit_def)

lemma Stop_world:
  "snd (Stop st rm ra delete w) =
     (if container (fixture w) = '''' then w
      else if snd st = None \<and> delete
        then snd (Delete rm ra (emit (Command (Docker (fixture w)) [''stop'', container (fixture w)]) w))
        else emit (Command (Docker (fixture w)) [''stop'', container (fixture w)]) w)"
  by (cases st) (simp add: Stop_def Let_def)

lemma CchContainerName_nonempty: "CchContainerName \<noteq> ''''"
  by (simp add: CchContainerName_def)



text \<open>
The container name after one call, and after a sequence of calls.
\<close>

lemma perform_container:
  assumes "container (fixture w) = (if b then CchContainerName else '''')"
  shows "container (fixture (perform c w)) =
           (if names_container c w b then CchContainerName else '''')"
proof (cases c)
  case (CallStart env testDir url link)
  with assms show ?thesis by (simp add: Start_container)
next
  case (CallStop st rm ra delete)
  with assms show ?thesis
    by (simp add: Stop_world Delete_world Cleanup_fixture CchContainerName_nonempty)
next
  case (CallDelete rm ra)
  with assms show ?thesis
    by (simp add: Delete_world Cleanup_fixture CchContainerName_nonempty)
next
  case (CallCleanup ra)
  with assms show ?thesis by (simp add: Cleanup_fixture)
qed

lemma run_container:
  "container (fixture w) = (if b then CchContainerName else '''') \<Longrightarrow>
     container (fixture (run cs w)) = (if named cs w b then CchContainerName else '''')"
proof (induction cs arbitrary: w b)
  case Nil
  then show ?case by simp
next
  case (Cons c cs)
  from Cons.IH [OF perform_container [OF Cons.prems]] show ?case by simp
qed

section \<open>The scenario of a successful Start\<close>

lemma world1_launched:
  "world1 =
     emit (Command (Docker (fixture (reserved2 env0 world0)))
             (run_args ''ch-container'' (fixture (reserved2 env0 world0))))
       (rendered tmpl0 ''/tests'' ''ch:8123'' (reserved2 env0 world0))"
proof -
  have v: "Version (fixture world0) \<noteq> ''''"
    by (simp add: world0_def fixture0_def)
  have e: "snd (port1 env0) = None" "snd (tempDir env0) = None" "snd (port2 env0) = None"
    "parseFiles env0 = Inr tmpl0" "openFile env0 = None"
    by (simp_all add: env0_def)
  have r: "snd (tmpl0 (params ''ch:8123'' (reserved2 env0 world0))) = None"
    by (simp add: tmpl0_def)
  show ?thesis
    unfolding world1_def Start_allocated [OF v e(1-3)] Start_config_rendered [OF e(4,5) r]
      Start_launch_eq
    by simp
qed

lemma world1_fixture_eq:
  "fixture world1 =
     \<lparr>Version = ''1.2.3'', Docker = ''docker'', DockerImage = ''lomik/carbon-clickhouse'',
      Template = ''carbon-clickhouse.conf.tpl'', TZ = '''',
      address = ''127.0.0.1:40002'', container = ''carbon-clickhouse-gch-test'',
      storeDir = ''/tmp/carbon-clickhouse1''\<rparr>"
  by (simp add: world1_launched reserved2_fixture defaulted_def world0_def fixture0_def env0_def
        CchContainerName_def)

lemma world1_fixture:
  "container (fixture world1) = ''carbon-clickhouse-gch-test''"
  "storeDir (fixture world1) = ''/tmp/carbon-clickhouse1''"
  "Docker (fixture world1) = ''docker''"
  by (simp_all add: world1_fixture_eq)

lemma world1_trace:
  "trace world1 =
     [GetFreeTCPPort '''', TempDir '''' ''carbon-clickhouse'', GetFreeTCPPort '''',
      ParseFiles ''/tests'' ''carbon-clickhouse.conf.tpl'',
      OpenFile ''/tmp/carbon-clickhouse1'' ''carbon-clickhouse.conf'',
      ExecuteTemplate ''/tmp/carbon-clickhouse1'' ''carbon-clickhouse.conf''
        \<lparr>CLICKHOUSE_URL = ''ch:8123'', CCH_ADDR = ''127.0.0.1:40002''\<rparr>,
      Command ''docker''
        [''run'', ''-d'', ''--name'', ''carbon-clickhouse-gch-test'',
         ''-p'', ''127.0.0.1:40002:2003'',
         ''-v'', ''/tmp/carbon-clickhouse1:/etc/carbon-clickhouse'',
         ''--link'', ''ch-container'', ''lomik/carbon-clickhouse:1.2.3'']]"
  by (simp add: world1_launched rendered_trace reserved2_trace reserved2_fixture run_args_def
        params_def defaulted_def world0_def fixture0_def env0_def CchContainerName_def)


section \<open>The claims\<close>

subsection \<open>C1: when the container name is set\<close>

text \<open>
  Claim C1 says that \<open>Container()\<close> is empty exactly when no container has ever been
  created for the instance, and in particular that a \<open>Start\<close> that fails before or at
  the launch leaves it empty. The code sets the name at line 46, right after the first
  port reservation, and no later failure resets it. What holds instead, for every sequence
  of calls on an instance whose container name is empty at the beginning: \<open>Container()\<close>
  is the fixed name if a \<open>Start\<close> has passed the version check and the first port
  reservation and no runtime \<open>rm\<close> has succeeded since (\<open>named\<close>), and empty otherwise;
  the fixed name is not empty.
\<close>

theorem Container_tracking:
  assumes "container (fixture w) = ''''"
  shows "Container (run cs w) = (if named cs w False then CchContainerName else '''') \<and>
         CchContainerName \<noteq> ''''"
  using run_container [of w False cs] assms
  by (simp add: Container_def CchContainerName_nonempty)

text \<open>
  C1 as stated fails: on a fresh instance, in a world where the scratch directory cannot
  be created, \<open>Start\<close> returns an error and has run no subprocess at all, and yet
  \<open>Container()\<close> is the fixed name afterwards.
\<close>

theorem Container_tracking_counterexample:
  "fst (fst (Start env_no_scratch ''/tests'' ''ch:8123'' ''ch-container'' world0)) \<noteq> None \<and>
   trace world0 = [] \<and>
   filter is_command
     (trace (snd (Start env_no_scratch ''/tests'' ''ch:8123'' ''ch-container'' world0))) = [] \<and>
   Container (snd (Start env_no_scratch ''/tests'' ''ch:8123'' ''ch-container'' world0)) =
     ''carbon-clickhouse-gch-test''"
proof -
  have v: "Version (fixture world0) \<noteq> ''''"
    by (simp add: world0_def fixture0_def)
  have e: "snd (port1 env_no_scratch) = None" "snd (tempDir env_no_scratch) \<noteq> None"
    by (simp_all add: env_no_scratch_def env0_def)
  show ?thesis
    unfolding Start_tempDir_fails [OF v e]
    by (simp add: e Container_def scratch_fixture scratch_world world0_def CchContainerName_def)
qed

theorem Container_tracking_witness:
  "container (fixture world0) = '''' \<and>
   Container (run [CallStart env_no_scratch ''/tests'' ''ch:8123'' ''ch-container''] world0) =
     ''carbon-clickhouse-gch-test'' \<and>
   Container (run [CallStart env_no_scratch ''/tests'' ''ch:8123'' ''ch-container'',
                   CallDelete (''removed'', None) None] world0) = '''' \<and>
   Container (run [CallStart (env0\<lparr>port1 := ('''', Some ''listen: address in use'')\<rparr>)
                     ''/tests'' ''ch:8123'' ''ch-container''] world0) = ''''"
proof -
  have c: "container (fixture world0) = ''''"
    by (simp add: world0_def fixture0_def)
  have v: "Version (fixture world0) \<noteq> ''''"
    by (simp add: world0_def fixture0_def)
  have e: "snd (port1 env_no_scratch) = None"
    by (simp add: env_no_scratch_def env0_def)
  show ?thesis
    using c Container_tracking [OF c,
        of "[CallStart env_no_scratch ''/tests'' ''ch:8123'' ''ch-container'']"]
      Container_tracking [OF c,
        of "[CallStart env_no_scratch ''/tests'' ''ch:8123'' ''ch-container'',
             CallDelete (''removed'', None) None]"]
      Container_tracking [OF c,
        of "[CallStart (env0\<lparr>port1 := ('''', Some ''listen: address in use'')\<rparr>)
               ''/tests'' ''ch:8123'' ''ch-container'']"]
    by (simp add: v e CchContainerName_def)
qed

subsection \<open>C2: a template failure cleans up\<close>

text \<open>
  Claim C2: when \<open>Start\<close> has reserved both ports and created the scratch directory
  \<open>d\<close>, and then parsing the template, creating the configuration file or rendering the
  template fails, \<open>Start\<close> returns a non-nil error with empty output, the tracked path is
  cleared, exactly one removal is issued and it is that of \<open>d\<close> (so \<open>d\<close> is gone whenever
  the removal succeeds; \<open>Cleanup\<close> drops its error), and no subprocess is run. That the
  path \<open>TempDir\<close> returns without error is not empty is Go's contract for it.
\<close>

theorem Start_template_failure:
  assumes v: "Version (fixture w) \<noteq> ''''"
    and p1: "snd (port1 env) = None"
    and td: "tempDir env = (d, None)" "d \<noteq> ''''"
    and p2: "snd (port2 env) = None"
    and fail: "(\<exists>e. parseFiles env = Inl e) \<or>
               (\<exists>tmpl. parseFiles env = Inr tmpl \<and>
                  (openFile env \<noteq> None \<or>
                   snd (tmpl \<lparr>CLICKHOUSE_URL = url, CCH_ADDR = fst (port2 env)\<rparr>) \<noteq> None))"
  shows "fst (fst (Start env testDir url link w)) \<noteq> None \<and>
         snd (fst (Start env testDir url link w)) = '''' \<and>
         storeDir (fixture (snd (Start env testDir url link w))) = '''' \<and>
         filter is_removal (since w (snd (Start env testDir url link w))) = [RemoveAll d] \<and>
         (removeAll env = None \<longrightarrow> fs (snd (Start env testDir url link w)) d = None) \<and>
         filter is_command (since w (snd (Start env testDir url link w))) = []"
proof -
  have td': "snd (tempDir env) = None" "fst (tempDir env) = d"
    using td by simp_all
  have pa: "params url (reserved2 env w) = \<lparr>CLICKHOUSE_URL = url, CCH_ADDR = fst (port2 env)\<rparr>"
    by (simp add: params_def reserved2_fixture)
  have sd: "storeDir (fixture (reserved2 env w)) = d"
    by (simp add: reserved2_fixture td')
  from v show ?thesis
  proof (cases rule: Start_cases [where env = env and testDir = testDir and url = url and link = link])
    case port1
    with p1 show ?thesis by simp
  next
    case tempDir
    with td' show ?thesis by simp
  next
    case port2
    with p2 show ?thesis by simp
  next
    case (parse e)
    have "trace (snd (Start env testDir url link w)) =
        trace w @ [GetFreeTCPPort '''', TempDir '''' ''carbon-clickhouse'', GetFreeTCPPort '''',
                   ParseFiles testDir (Template (fixture (reserved2 env w))), RemoveAll d]"
      using td(2) by (simp add: parse Cleanup_trace parsed_trace reserved2_trace sd)
    from since_append [OF this] show ?thesis
      using td(2) by (simp add: parse Cleanup_fixture Cleanup_fs sd)
  next
    case (openFile tmpl)
    have "trace (snd (Start env testDir url link w)) =
        trace w @ [GetFreeTCPPort '''', TempDir '''' ''carbon-clickhouse'', GetFreeTCPPort '''',
                   ParseFiles testDir (Template (fixture (reserved2 env w))),
                   OpenFile d ''carbon-clickhouse.conf'', RemoveAll d]"
      using td(2) by (simp add: openFile Cleanup_trace opened_trace reserved2_trace sd)
    from since_append [OF this] show ?thesis
      using td(2) openFile(5) by (auto simp: openFile(6) Cleanup_fixture Cleanup_fs sd)
  next
    case (render tmpl)
    have "trace (snd (Start env testDir url link w)) =
        trace w @ [GetFreeTCPPort '''', TempDir '''' ''carbon-clickhouse'', GetFreeTCPPort '''',
                   ParseFiles testDir (Template (fixture (reserved2 env w))),
                   OpenFile d ''carbon-clickhouse.conf'',
                   ExecuteTemplate d ''carbon-clickhouse.conf'' (params url (reserved2 env w)),
                   RemoveAll d]"
      using td(2) by (simp add: render Cleanup_trace rendered_trace reserved2_trace sd)
    from since_append [OF this] show ?thesis
      using td(2) render(6) by (auto simp: render(7) Cleanup_fixture Cleanup_fs sd)
  next
    case (launch tmpl)
    with fail pa show ?thesis by auto
  qed
qed

theorem Start_template_failure_witness:
  "Version (fixture world0) \<noteq> '''' \<and>
   snd (port1 env_render_fails) = None \<and>
   tempDir env_render_fails = (''/tmp/carbon-clickhouse1'', None) \<and>
   snd (port2 env_render_fails) = None \<and>
   parseFiles env_render_fails = Inr tmpl_undefined \<and>
   snd (tmpl_undefined \<lparr>CLICKHOUSE_URL = ''ch:8123'', CCH_ADDR = ''127.0.0.1:40002''\<rparr>) \<noteq> None \<and>
   fst (fst (Start env_render_fails ''/tests'' ''ch:8123'' ''ch-container'' world0)) \<noteq> None \<and>
   snd (fst (Start env_render_fails ''/tests'' ''ch:8123'' ''ch-container'' world0)) = '''' \<and>
   storeDir (fixture (snd (Start env_render_fails ''/tests'' ''ch:8123'' ''ch-container'' world0))) = '''' \<and>
   filter is_removal
     (since world0 (snd (Start env_render_fails ''/tests'' ''ch:8123'' ''ch-container'' world0))) =
     [RemoveAll ''/tmp/carbon-clickhouse1''] \<and>
   fs (snd (Start env_render_fails ''/tests'' ''ch:8123'' ''ch-container'' world0))
     ''/tmp/carbon-clickhouse1'' = None \<and>
   filter is_command
     (since world0 (snd (Start env_render_fails ''/tests'' ''ch:8123'' ''ch-container'' world0))) = []"
proof -
  have v: "Version (fixture world0) \<noteq> ''''"
    by (simp add: world0_def fixture0_def)
  have e: "snd (port1 env_render_fails) = None"
    "tempDir env_render_fails = (''/tmp/carbon-clickhouse1'', None)"
    "''/tmp/carbon-clickhouse1'' \<noteq> ''''"
    "snd (port2 env_render_fails) = None"
    by (simp_all add: env_render_fails_def env0_def)
  have pf: "parseFiles env_render_fails = Inr tmpl_undefined"
    by (simp add: env_render_fails_def)
  have r: "snd (tmpl_undefined \<lparr>CLICKHOUSE_URL = ''ch:8123'', CCH_ADDR = ''127.0.0.1:40002''\<rparr>) \<noteq> None"
    by (simp add: tmpl_undefined_def)
  have p2: "fst (port2 env_render_fails) = ''127.0.0.1:40002''"
    by (simp add: env_render_fails_def env0_def)
  have f: "(\<exists>e. parseFiles env_render_fails = Inl e) \<or>
           (\<exists>tmpl. parseFiles env_render_fails = Inr tmpl \<and>
              (openFile env_render_fails \<noteq> None \<or>
               snd (tmpl \<lparr>CLICKHOUSE_URL = ''ch:8123'', CCH_ADDR = fst (port2 env_render_fails)\<rparr>)
                 \<noteq> None))"
    using pf r p2 by simp
  have ra: "removeAll env_render_fails = None"
    by (simp add: env_render_fails_def env0_def)
  show ?thesis
    using v e pf r ra Start_template_failure [OF v e f, of "''/tests''" "''ch-container''"]
    by blast
qed

subsection \<open>C3: a launch failure keeps the scratch directory\<close>

text \<open>
  Claim C3, without the non-emptiness of the output: when \<open>Start\<close> reaches the launch and
  the runtime invocation returns the output \<open>out\<close> and the error \<open>e\<close>, \<open>Start\<close> returns
  exactly \<open>(e, out)\<close>, the scratch directory stays tracked, no removal is issued, and the
  directory holds the rendered configuration file. The output is whatever the subprocess
  wrote, empty or not.
\<close>

theorem Start_launch_failure:
  assumes v: "Version (fixture w) \<noteq> ''''"
    and p1: "snd (port1 env) = None"
    and td: "tempDir env = (d, None)"
    and p2: "snd (port2 env) = None"
    and pf: "parseFiles env = Inr tmpl"
    and op: "openFile env = None"
    and r: "tmpl \<lparr>CLICKHOUSE_URL = url, CCH_ADDR = fst (port2 env)\<rparr> = (txt, None)"
    and co: "combinedOutput env = (out, Some e)"
  shows "fst (Start env testDir url link w) = (Some e, out) \<and>
         storeDir (fixture (snd (Start env testDir url link w))) = d \<and>
         filter is_removal (since w (snd (Start env testDir url link w))) = [] \<and>
         fs (snd (Start env testDir url link w)) d = Some [''carbon-clickhouse.conf'' \<mapsto> txt]"
proof -
  have td': "snd (tempDir env) = None" "fst (tempDir env) = d"
    using td by simp_all
  have pa: "params url (reserved2 env w) = \<lparr>CLICKHOUSE_URL = url, CCH_ADDR = fst (port2 env)\<rparr>"
    by (simp add: params_def reserved2_fixture)
  have r': "snd (tmpl (params url (reserved2 env w))) = None"
    by (simp add: pa r)
  note eq = Start_launched [OF v p1 td'(1) p2 pf op r', of testDir link]
  show ?thesis
    unfolding eq using since_append [OF launched_trace]
    by (simp add: co launched_fs [OF td'(1)] reserved2_fixture td'(2) pa r)
qed

text \<open>
  C3 as stated fails: when the runtime binary cannot be executed the invocation fails with
  no output, and \<open>Start\<close>, having reached the launch, returns the error with an empty
  string.
\<close>

theorem Start_launch_failure_counterexample:
  "snd (combinedOutput env_no_runtime) \<noteq> None \<and>
   fst (Start env_no_runtime ''/tests'' ''ch:8123'' ''ch-container'' world0) =
     (Some ''exec: docker: executable file not found'', '''') \<and>
   since world0 (snd (Start env_no_runtime ''/tests'' ''ch:8123'' ''ch-container'' world0)) =
     [GetFreeTCPPort '''', TempDir '''' ''carbon-clickhouse'', GetFreeTCPPort '''',
      ParseFiles ''/tests'' ''carbon-clickhouse.conf.tpl'',
      OpenFile ''/tmp/carbon-clickhouse1'' ''carbon-clickhouse.conf'',
      ExecuteTemplate ''/tmp/carbon-clickhouse1'' ''carbon-clickhouse.conf''
        \<lparr>CLICKHOUSE_URL = ''ch:8123'', CCH_ADDR = ''127.0.0.1:40002''\<rparr>,
      Command ''docker''
        [''run'', ''-d'', ''--name'', ''carbon-clickhouse-gch-test'',
         ''-p'', ''127.0.0.1:40002:2003'',
         ''-v'', ''/tmp/carbon-clickhouse1:/etc/carbon-clickhouse'',
         ''--link'', ''ch-container'', ''lomik/carbon-clickhouse:1.2.3'']]"
proof -
  have v: "Version (fixture world0) \<noteq> ''''"
    by (simp add: world0_def fixture0_def)
  have e: "snd (port1 env_no_runtime) = None" "snd (tempDir env_no_runtime) = None"
    "snd (port2 env_no_runtime) = None" "parseFiles env_no_runtime = Inr tmpl0"
    "openFile env_no_runtime = None"
    by (simp_all add: env_no_runtime_def env0_def)
  have r: "snd (tmpl0 (params ''ch:8123'' (reserved2 env_no_runtime world0))) = None"
    by (simp add: tmpl0_def)
  show ?thesis
    unfolding Start_launched [OF v e r] using since_append [OF launched_trace]
    by (simp add: env_no_runtime_def env0_def reserved2_fixture run_args_def defaulted_def
          world0_def fixture0_def CchContainerName_def)
qed

theorem Start_launch_failure_witness:
  "Version (fixture world0) \<noteq> '''' \<and>
   snd (port1 env_conflict) = None \<and>
   tempDir env_conflict = (''/tmp/carbon-clickhouse1'', None) \<and>
   snd (port2 env_conflict) = None \<and>
   parseFiles env_conflict = Inr tmpl0 \<and>
   openFile env_conflict = None \<and>
   tmpl0 \<lparr>CLICKHOUSE_URL = ''ch:8123'', CCH_ADDR = fst (port2 env_conflict)\<rparr> =
     (''url=ch:8123 listen=127.0.0.1:40002'', None) \<and>
   combinedOutput env_conflict =
     (''docker: Error response from daemon: Conflict.'', Some ''exit status 125'') \<and>
   fst (Start env_conflict ''/tests'' ''ch:8123'' ''ch-container'' world0) =
     (Some ''exit status 125'', ''docker: Error response from daemon: Conflict.'') \<and>
   storeDir (fixture (snd (Start env_conflict ''/tests'' ''ch:8123'' ''ch-container'' world0))) =
     ''/tmp/carbon-clickhouse1'' \<and>
   filter is_removal
     (since world0 (snd (Start env_conflict ''/tests'' ''ch:8123'' ''ch-container'' world0))) = [] \<and>
   fs (snd (Start env_conflict ''/tests'' ''ch:8123'' ''ch-container'' world0))
     ''/tmp/carbon-clickhouse1'' =
     Some [''carbon-clickhouse.conf'' \<mapsto> ''url=ch:8123 listen=127.0.0.1:40002'']"
proof -
  have v: "Version (fixture world0) \<noteq> ''''"
    by (simp add: world0_def fixture0_def)
  have e: "snd (port1 env_conflict) = None"
    "tempDir env_conflict = (''/tmp/carbon-clickhouse1'', None)"
    "snd (port2 env_conflict) = None"
    "parseFiles env_conflict = Inr tmpl0"
    "openFile env_conflict = None"
    "tmpl0 \<lparr>CLICKHOUSE_URL = ''ch:8123'', CCH_ADDR = fst (port2 env_conflict)\<rparr> =
       (''url=ch:8123 listen=127.0.0.1:40002'', None)"
    "combinedOutput env_conflict =
       (''docker: Error response from daemon: Conflict.'', Some ''exit status 125'')"
    by (simp_all add: env_conflict_def env0_def tmpl0_def)
  show ?thesis
    using v e Start_launch_failure [OF v e, of "''/tests''" "''ch-container''"]
    by blast
qed

subsection \<open>C4: Delete with a tracked container\<close>

text \<open>
  Claim C4: with a tracked container, \<open>Delete\<close> returns the error and the output of the
  runtime's \<open>rm\<close>; the world it leaves is that of \<open>Cleanup\<close>, performed after the \<open>rm\<close>
  command on a receiver whose container name is cleared when \<open>rm\<close> succeeded and kept
  when it failed. So in both cases the tracked scratch path is empty afterwards, and the
  external calls are the \<open>rm\<close> and, if a scratch directory was tracked, its removal.
\<close>

theorem Delete_tracked:
  assumes "container (fixture w) \<noteq> ''''"
  shows "fst (Delete (out, err) ra w) = (err, out) \<and>
    Cleanup ra
      ((emit (Command (Docker (fixture w)) [''rm'', container (fixture w)]) w)
         \<lparr>fixture := (fixture w)
            \<lparr>container := (if err = None then '''' else container (fixture w))\<rparr>\<rparr>) =
      snd (Delete (out, err) ra w) \<and>
    container (fixture (snd (Delete (out, err) ra w))) =
      (if err = None then '''' else container (fixture w)) \<and>
    storeDir (fixture (snd (Delete (out, err) ra w))) = '''' \<and>
    since w (snd (Delete (out, err) ra w)) =
      Command (Docker (fixture w)) [''rm'', container (fixture w)] #
      (if storeDir (fixture w) \<noteq> '''' then [RemoveAll (storeDir (fixture w))] else [])"
proof -
  let ?w1 = "(emit (Command (Docker (fixture w)) [''rm'', container (fixture w)]) w)
           \<lparr>fixture := (fixture w)
              \<lparr>container := (if err = None then '''' else container (fixture w))\<rparr>\<rparr>"
  have eq: "Delete (out, err) ra w = ((err, out), Cleanup ra ?w1)"
    using assms by (simp add: Delete_def Let_def emit_def)
  have tr: "trace (Cleanup ra ?w1) =
      trace w @ (Command (Docker (fixture w)) [''rm'', container (fixture w)] #
      (if storeDir (fixture w) \<noteq> '''' then [RemoveAll (storeDir (fixture w))] else []))"
    by (simp add: Cleanup_trace)
  show ?thesis
    unfolding eq using since_append [OF tr] by (simp add: Cleanup_fixture)
qed

theorem Delete_tracked_witness:
  "container (fixture world1) \<noteq> '''' \<and>
   fst (Delete (''carbon-clickhouse-gch-test'', None) None world1) =
     (None, ''carbon-clickhouse-gch-test'') \<and>
   container (fixture (snd (Delete (''carbon-clickhouse-gch-test'', None) None world1))) = '''' \<and>
   storeDir (fixture (snd (Delete (''carbon-clickhouse-gch-test'', None) None world1))) = '''' \<and>
   since world1 (snd (Delete (''carbon-clickhouse-gch-test'', None) None world1)) =
     [Command ''docker'' [''rm'', ''carbon-clickhouse-gch-test''],
      RemoveAll ''/tmp/carbon-clickhouse1''] \<and>
   fst (Delete (''Error: No such container'', Some ''exit status 1'') None world1) =
     (Some ''exit status 1'', ''Error: No such container'') \<and>
   container (fixture (snd (Delete (''Error: No such container'', Some ''exit status 1'') None
      world1))) = ''carbon-clickhouse-gch-test'' \<and>
   storeDir (fixture (snd (Delete (''Error: No such container'', Some ''exit status 1'') None
      world1))) = '''' \<and>
   since world1 (snd (Delete (''Error: No such container'', Some ''exit status 1'') None world1)) =
     [Command ''docker'' [''rm'', ''carbon-clickhouse-gch-test''],
      RemoveAll ''/tmp/carbon-clickhouse1'']"
proof -
  have c: "container (fixture world1) \<noteq> ''''"
    by (simp add: world1_fixture)
  show ?thesis
    using c Delete_tracked [OF c, of "''carbon-clickhouse-gch-test''" None None]
      Delete_tracked [OF c, of "''Error: No such container''" "Some ''exit status 1''" None]
    unfolding world1_fixture by simp
qed

subsection \<open>C5: Stop with a tracked container\<close>

text \<open>
  Claim C5: with a tracked container, \<open>Stop\<close> runs the runtime's \<open>stop\<close>. If it succeeds
  and deletion is asked for, the result of \<open>Stop\<close> is the result of \<open>Delete\<close> in the
  world after the \<open>stop\<close> command: \<open>Delete\<close>'s error and output replace the stop's own.
  If it succeeds and deletion is not asked for, \<open>Stop\<close> returns the stop's output. If it
  fails, \<open>Stop\<close> returns the stop's error and output, and the \<open>stop\<close> command is the only
  effect: no \<open>rm\<close>, no removal, the receiver unchanged, whether deletion was asked for or
  not.
\<close>

theorem Stop_tracked:
  assumes "container (fixture w) \<noteq> ''''"
  shows "(err = None \<and> delete \<longrightarrow>
            Stop (out, err) rm ra delete w =
              Delete rm ra (emit (Command (Docker (fixture w)) [''stop'', container (fixture w)]) w)) \<and>
         (err = None \<and> \<not> delete \<longrightarrow>
            Stop (out, err) rm ra delete w =
              ((None, out), emit (Command (Docker (fixture w)) [''stop'', container (fixture w)]) w)) \<and>
         (err \<noteq> None \<longrightarrow>
            Stop (out, err) rm ra delete w =
              ((err, out), emit (Command (Docker (fixture w)) [''stop'', container (fixture w)]) w))"
  using assms by (simp add: Stop_def Let_def)

theorem Stop_tracked_witness:
  "container (fixture world1) \<noteq> '''' \<and>
   Stop (''carbon-clickhouse-gch-test'', None) (''removed'', None) None True world1 =
     Delete (''removed'', None) None
       (emit (Command ''docker'' [''stop'', ''carbon-clickhouse-gch-test'']) world1) \<and>
   Stop (''carbon-clickhouse-gch-test'', None) (''removed'', None) None False world1 =
     ((None, ''carbon-clickhouse-gch-test''),
      emit (Command ''docker'' [''stop'', ''carbon-clickhouse-gch-test'']) world1) \<and>
   Stop (''Error: No such container'', Some ''exit status 1'') (''removed'', None) None True world1 =
     ((Some ''exit status 1'', ''Error: No such container''),
      emit (Command ''docker'' [''stop'', ''carbon-clickhouse-gch-test'']) world1)"
proof -
  have c: "container (fixture world1) \<noteq> ''''"
    by (simp add: world1_fixture)
  show ?thesis
    using c Stop_tracked [OF c, of None True "''carbon-clickhouse-gch-test''" "(''removed'', None)" None]
      Stop_tracked [OF c, of None False "''carbon-clickhouse-gch-test''" "(''removed'', None)" None]
      Stop_tracked [OF c, of "Some ''exit status 1''" True "''Error: No such container''"
        "(''removed'', None)" None]
    unfolding world1_fixture by simp
qed

subsection \<open>C6: Cleanup is idempotent\<close>

text \<open>
  Claim C6: a second \<open>Cleanup\<close> changes nothing; without a tracked scratch directory
  \<open>Cleanup\<close> changes nothing; with one, \<open>Cleanup\<close> clears the tracked path and issues
  exactly one removal, that of the tracked directory, which is gone when the removal
  succeeds, and any number of \<open>Cleanup\<close> calls in a row, one or more, still issues that
  one removal. \<open>Cleanup\<close> returns no error, and neither the receiver nor the trace it
  leaves depends on whether the removal succeeded.
\<close>

theorem Cleanup_idempotent:
  "Cleanup ra' (Cleanup ra w) = Cleanup ra w \<and>
   (storeDir (fixture w) = '''' \<longrightarrow> Cleanup ra w = w) \<and>
   (storeDir (fixture w) \<noteq> '''' \<longrightarrow>
      storeDir (fixture (Cleanup ra w)) = '''' \<and>
      since w (Cleanup ra w) = [RemoveAll (storeDir (fixture w))] \<and>
      (ra = None \<longrightarrow> fs (Cleanup ra w) (storeDir (fixture w)) = None) \<and>
      since w (run (map CallCleanup (ra # ras)) w) = [RemoveAll (storeDir (fixture w))]) \<and>
   fixture (Cleanup ra w) = fixture (Cleanup ra' w) \<and>
   trace (Cleanup ra w) = trace (Cleanup ra' w)"
  by (simp add: Cleanup_Cleanup Cleanup_untracked run_Cleanups Cleanup_fixture Cleanup_trace
        Cleanup_fs since_append)

theorem Cleanup_idempotent_witness:
  "storeDir (fixture world1) \<noteq> '''' \<and>
   storeDir (fixture (Cleanup None world1)) = '''' \<and>
   since world1 (Cleanup None world1) = [RemoveAll ''/tmp/carbon-clickhouse1''] \<and>
   fs (Cleanup None world1) ''/tmp/carbon-clickhouse1'' = None \<and>
   since world1 (run (map CallCleanup [None, None, Some ''busy'']) world1) =
     [RemoveAll ''/tmp/carbon-clickhouse1''] \<and>
   storeDir (fixture world0) = '''' \<and>
   Cleanup None world0 = world0"
proof -
  have t: "storeDir (fixture world1) \<noteq> ''''"
    by (simp add: world1_fixture)
  have u: "storeDir (fixture world0) = ''''"
    by (simp add: world0_def fixture0_def)
  show ?thesis
    using t u Cleanup_idempotent [of None None world1 "[None, Some ''busy'']"]
      Cleanup_idempotent [of None None world0 "[]"]
    unfolding world1_fixture by blast
qed

subsection \<open>C7: Stop and Delete before any Start\<close>

text \<open>
  Claim C7: on an instance whose tracked container name is empty, as it is before any
  \<open>Start\<close>, \<open>Stop\<close> (with or without deletion) and \<open>Delete\<close> return \<open>(nil, "")\<close> and
  leave the world as it is: no external call, hence no subprocess.
\<close>

theorem Stop_Delete_unstarted:
  "container (fixture w) = '''' \<Longrightarrow>
     Stop st rm ra delete w = ((None, ''''), w) \<and> Delete rm ra w = ((None, ''''), w)"
  by (simp add: Stop_def Delete_def)

theorem Stop_Delete_unstarted_witness:
  "container (fixture world0) = '''' \<and>
   Stop (''stopped'', None) (''removed'', None) None True world0 = ((None, ''''), world0) \<and>
   Delete (''removed'', None) None world0 = ((None, ''''), world0)"
  using Stop_Delete_unstarted [of world0 "(''stopped'', None)" "(''removed'', None)" None True]
  by (simp add: world0_def fixture0_def)

subsection \<open>C8: one address everywhere\<close>

text \<open>
  Claim C8: when \<open>Start\<close> returns a nil error, the address \<open>a\<close> that \<open>Address()\<close>
  returns afterwards is the answer of the second port reservation; the external calls of
  that \<open>Start\<close> are, in this order, the two reservations around the creation of the
  scratch directory \<open>d\<close>, the parsing of the template, the creation of the configuration
  file, the rendering with \<open>CCH_ADDR = a\<close>, and last the runtime's \<open>run\<close> with the fixed
  name and the port mapping \<open>a:2003\<close>; the configuration file holds what the template
  writes for \<open>a\<close>; and \<open>Container()\<close> is the fixed name. The address is not empty when
  the port allocator keeps its contract.
\<close>

theorem Start_success:
  fixes env testDir url link w w' a d
  defines "w' \<equiv> snd (Start env testDir url link w)"
    and "a \<equiv> Address (snd (Start env testDir url link w))"
    and "d \<equiv> storeDir (fixture (snd (Start env testDir url link w)))"
  assumes ok: "fst (fst (Start env testDir url link w)) = None"
    and alloc: "free_address (port2 env)"
  shows "\<exists>tmpl. parseFiles env = Inr tmpl \<and>
     a = fst (port2 env) \<and> a \<noteq> '''' \<and> Container w' = CchContainerName \<and>
     since w w' =
       [GetFreeTCPPort '''', TempDir '''' ''carbon-clickhouse'', GetFreeTCPPort '''',
        ParseFiles testDir (Template (fixture w)),
        OpenFile d ''carbon-clickhouse.conf'',
        ExecuteTemplate d ''carbon-clickhouse.conf'' \<lparr>CLICKHOUSE_URL = url, CCH_ADDR = a\<rparr>,
        Command (Docker (fixture w'))
          ([''run'', ''-d'', ''--name'', CchContainerName, ''-p'', a @ '':2003'',
            ''-v'', d @ '':/etc/carbon-clickhouse'', ''--link'', link]
           @ (if TZ (fixture w) \<noteq> '''' then [''-e'', ''TZ='' @ TZ (fixture w)] else [])
           @ [DockerImage (fixture w') @ '':'' @ Version (fixture w)])] \<and>
     fs w' d =
       Some [''carbon-clickhouse.conf'' \<mapsto> fst (tmpl \<lparr>CLICKHOUSE_URL = url, CCH_ADDR = a\<rparr>)]"
proof -
  from Start_ok_launched [OF ok] obtain tmpl where
    pf: "parseFiles env = Inr tmpl" and td: "snd (tempDir env) = None"
    and p2: "snd (port2 env) = None"
    and eq: "w' = emit (Command (Docker (fixture (reserved2 env w)))
                (run_args link (fixture (reserved2 env w))))
          (rendered tmpl testDir url (reserved2 env w))"
    unfolding w'_def by auto
  have fx: "fixture w' = fixture (reserved2 env w)"
    unfolding eq by simp
  have a: "a = fst (port2 env)"
    unfolding a_def Address_def w'_def [symmetric] fx by (simp add: reserved2_fixture)
  have d: "d = fst (tempDir env)"
    unfolding d_def w'_def [symmetric] fx by (simp add: reserved2_fixture)
  have ne: "a \<noteq> ''''"
    using alloc p2 unfolding a by (simp add: free_address_def)
  have c: "Container w' = CchContainerName"
    unfolding Container_def fx by (simp add: reserved2_fixture)
  have args: "run_args link (fixture (reserved2 env w)) =
      [''run'', ''-d'', ''--name'', CchContainerName, ''-p'', a @ '':2003'',
       ''-v'', d @ '':/etc/carbon-clickhouse'', ''--link'', link]
      @ (if TZ (fixture w) \<noteq> '''' then [''-e'', ''TZ='' @ TZ (fixture w)] else [])
      @ [DockerImage (fixture w') @ '':'' @ Version (fixture w)]"
    unfolding fx a d by (simp add: run_args_def reserved2_fixture)
  have tr: "since w w' =
     [GetFreeTCPPort '''', TempDir '''' ''carbon-clickhouse'', GetFreeTCPPort '''',
      ParseFiles testDir (Template (fixture w)),
      OpenFile d ''carbon-clickhouse.conf'',
      ExecuteTemplate d ''carbon-clickhouse.conf'' \<lparr>CLICKHOUSE_URL = url, CCH_ADDR = a\<rparr>,
      Command (Docker (fixture w')) (run_args link (fixture (reserved2 env w)))]"
    unfolding fx a d unfolding eq by (rule since_append [OF launched_trace])
  have f: "fs w' d =
     Some [''carbon-clickhouse.conf'' \<mapsto> fst (tmpl \<lparr>CLICKHOUSE_URL = url, CCH_ADDR = a\<rparr>)]"
    unfolding a d unfolding eq
    by (simp add: launched_fs [OF td] params_def reserved2_fixture)
  note tr' = tr [unfolded args]
  show ?thesis
    by (intro exI [of _ tmpl] conjI) (fact pf a ne c f tr')+
qed

theorem Start_success_witness:
  "fst (fst (Start env0 ''/tests'' ''ch:8123'' ''ch-container'' world0)) = None \<and>
   free_address (port2 env0) \<and>
   Address world1 = ''127.0.0.1:40002'' \<and>
   Container world1 = ''carbon-clickhouse-gch-test'' \<and>
   since world0 world1 =
     [GetFreeTCPPort '''', TempDir '''' ''carbon-clickhouse'', GetFreeTCPPort '''',
      ParseFiles ''/tests'' ''carbon-clickhouse.conf.tpl'',
      OpenFile ''/tmp/carbon-clickhouse1'' ''carbon-clickhouse.conf'',
      ExecuteTemplate ''/tmp/carbon-clickhouse1'' ''carbon-clickhouse.conf''
        \<lparr>CLICKHOUSE_URL = ''ch:8123'', CCH_ADDR = ''127.0.0.1:40002''\<rparr>,
      Command ''docker''
        [''run'', ''-d'', ''--name'', ''carbon-clickhouse-gch-test'',
         ''-p'', ''127.0.0.1:40002:2003'',
         ''-v'', ''/tmp/carbon-clickhouse1:/etc/carbon-clickhouse'',
         ''--link'', ''ch-container'', ''lomik/carbon-clickhouse:1.2.3'']] \<and>
   fs world1 ''/tmp/carbon-clickhouse1'' =
     Some [''carbon-clickhouse.conf'' \<mapsto> ''url=ch:8123 listen=127.0.0.1:40002'']"
proof -
  have v: "Version (fixture world0) \<noteq> ''''"
    by (simp add: world0_def fixture0_def)
  have e: "snd (port1 env0) = None" "snd (tempDir env0) = None" "snd (port2 env0) = None"
    "parseFiles env0 = Inr tmpl0" "openFile env0 = None"
    by (simp_all add: env0_def)
  have r: "snd (tmpl0 (params ''ch:8123'' (reserved2 env0 world0))) = None"
    by (simp add: tmpl0_def)
  have ok: "fst (fst (Start env0 ''/tests'' ''ch:8123'' ''ch-container'' world0)) = None"
    unfolding Start_launched [OF v e r] by (simp add: env0_def)
  have al: "free_address (port2 env0)"
    by (simp add: free_address_def env0_def)
  from Start_success [OF ok al, folded world1_def] obtain tmpl where
    pf: "parseFiles env0 = Inr tmpl"
    and a: "Address world1 = fst (port2 env0)"
    and c: "Container world1 = CchContainerName"
    and tr: "since world0 world1 =
       [GetFreeTCPPort '''', TempDir '''' ''carbon-clickhouse'', GetFreeTCPPort '''',
        ParseFiles ''/tests'' (Template (fixture world0)),
        OpenFile (storeDir (fixture world1)) ''carbon-clickhouse.conf'',
        ExecuteTemplate (storeDir (fixture world1)) ''carbon-clickhouse.conf''
          \<lparr>CLICKHOUSE_URL = ''ch:8123'', CCH_ADDR = Address world1\<rparr>,
        Command (Docker (fixture world1))
          ([''run'', ''-d'', ''--name'', CchContainerName, ''-p'', Address world1 @ '':2003'',
            ''-v'', storeDir (fixture world1) @ '':/etc/carbon-clickhouse'',
            ''--link'', ''ch-container'']
           @ (if TZ (fixture world0) \<noteq> '''' then [''-e'', ''TZ='' @ TZ (fixture world0)] else [])
           @ [DockerImage (fixture world1) @ '':'' @ Version (fixture world0)])]"
    and f: "fs world1 (storeDir (fixture world1)) =
       Some [''carbon-clickhouse.conf'' \<mapsto>
               fst (tmpl \<lparr>CLICKHOUSE_URL = ''ch:8123'', CCH_ADDR = Address world1\<rparr>)]"
    by blast
  have t: "tmpl = tmpl0"
    using pf e(4) by simp
  have a': "Address world1 = ''127.0.0.1:40002''"
    unfolding a by (simp add: env0_def)
  have c': "Container world1 = ''carbon-clickhouse-gch-test''"
    unfolding c by (simp add: CchContainerName_def)
  have tr': "since world0 world1 =
     [GetFreeTCPPort '''', TempDir '''' ''carbon-clickhouse'', GetFreeTCPPort '''',
      ParseFiles ''/tests'' ''carbon-clickhouse.conf.tpl'',
      OpenFile ''/tmp/carbon-clickhouse1'' ''carbon-clickhouse.conf'',
      ExecuteTemplate ''/tmp/carbon-clickhouse1'' ''carbon-clickhouse.conf''
        \<lparr>CLICKHOUSE_URL = ''ch:8123'', CCH_ADDR = ''127.0.0.1:40002''\<rparr>,
      Command ''docker''
        [''run'', ''-d'', ''--name'', ''carbon-clickhouse-gch-test'',
         ''-p'', ''127.0.0.1:40002:2003'',
         ''-v'', ''/tmp/carbon-clickhouse1:/etc/carbon-clickhouse'',
         ''--link'', ''ch-container'', ''lomik/carbon-clickhouse:1.2.3'']]"
    unfolding tr a' by (simp add: world1_fixture_eq world0_def fixture0_def CchContainerName_def)
  have f': "fs world1 ''/tmp/carbon-clickhouse1'' =
     Some [''carbon-clickhouse.conf'' \<mapsto> ''url=ch:8123 listen=127.0.0.1:40002'']"
    using f unfolding t a' by (simp add: world1_fixture_eq tmpl0_def)
  show ?thesis
    by (intro conjI) (fact ok al a' c' tr' f')+
qed

subsection \<open>C9: validation and defaulting\<close>

text \<open>
  Claim C9: with an empty version \<open>Start\<close> returns the error \<open>version not set\<close> with
  empty output and leaves the world as it is (receiver, disk and trace: nothing was
  reserved, created or run). With a version, whatever the outside world answers later,
  the runtime binary and the image name are afterwards the defaults \<open>docker\<close> and
  \<open>lomik/carbon-clickhouse\<close> where they were unset, and unchanged where they were set.
\<close>

theorem Start_validation:
  "(Version (fixture w) = '''' \<longrightarrow>
      Start env testDir url link w = ((Some ''version not set'', ''''), w)) \<and>
   (Version (fixture w) \<noteq> '''' \<longrightarrow>
      Docker (fixture (snd (Start env testDir url link w))) =
        (if Docker (fixture w) = '''' then ''docker'' else Docker (fixture w)) \<and>
      DockerImage (fixture (snd (Start env testDir url link w))) =
        (if DockerImage (fixture w) = '''' then ''lomik/carbon-clickhouse''
         else DockerImage (fixture w)))"
proof (intro conjI impI)
  assume "Version (fixture w) = ''''"
  then show "Start env testDir url link w = ((Some ''version not set'', ''''), w)"
    by (rule Start_invalid)
next
  assume v: "Version (fixture w) \<noteq> ''''"
  show "Docker (fixture (snd (Start env testDir url link w))) =
        (if Docker (fixture w) = '''' then ''docker'' else Docker (fixture w))"
    using v by (cases rule: Start_cases [where env = env and testDir = testDir and url = url and link = link])
       (simp_all add: reserved1_fixture scratch_fixture reserved2_fixture Cleanup_fixture)
  show "DockerImage (fixture (snd (Start env testDir url link w))) =
        (if DockerImage (fixture w) = '''' then ''lomik/carbon-clickhouse''
         else DockerImage (fixture w))"
    using v by (cases rule: Start_cases [where env = env and testDir = testDir and url = url and link = link])
       (simp_all add: reserved1_fixture scratch_fixture reserved2_fixture Cleanup_fixture)
qed

theorem Start_validation_witness:
  "Version (fixture world0) \<noteq> '''' \<and>
   Docker (fixture (snd (Start env0 ''/tests'' ''ch:8123'' ''ch-container'' world0))) = ''docker'' \<and>
   DockerImage (fixture (snd (Start env0 ''/tests'' ''ch:8123'' ''ch-container'' world0))) =
     ''lomik/carbon-clickhouse'' \<and>
   Version (fixture (world0\<lparr>fixture := fixture0\<lparr>Version := ''''\<rparr>\<rparr>)) = '''' \<and>
   Start env0 ''/tests'' ''ch:8123'' ''ch-container'' (world0\<lparr>fixture := fixture0\<lparr>Version := ''''\<rparr>\<rparr>) =
     ((Some ''version not set'', ''''), world0\<lparr>fixture := fixture0\<lparr>Version := ''''\<rparr>\<rparr>)"
  using Start_validation [of world0 env0 "''/tests''" "''ch:8123''" "''ch-container''"]
    Start_validation [of "world0\<lparr>fixture := fixture0\<lparr>Version := ''''\<rparr>\<rparr>" env0
      "''/tests''" "''ch:8123''" "''ch-container''"]
  by (simp add: world0_def fixture0_def)

subsection \<open>C10: a second Start orphans the scratch directory\<close>



end
